theory Spec2Isabelle
  imports Complex_Main "HOL-Library.Multiset"
begin

section \<open>Data model\<close>

text \<open>
  The tables of the emissions engine are pandas data frames. A frame is modelled as the
  list of its rows, in row order, each row a record of the frame's columns, so a frame
  of the model always has its required columns. Numeric cells are Python floats; they
  are modelled as reals (no rounding, no overflow). The one special float value the
  engine itself creates and tests for, the NaN that a left join leaves in the columns
  of the right frame where no row matches, is modelled as \<open>None\<close>.
\<close>

record activity_row =
  sector :: string
  activity :: real

record factor_row =
  f_sector :: string
  co2_factor :: real
  ch4_factor :: real
  n2o_factor :: real

record merged_row =
  m_sector :: string
  m_activity :: real
  m_co2_factor :: "real option"
  m_ch4_factor :: "real option"
  m_n2o_factor :: "real option"

record emission_row =
  e_sector :: string
  e_activity :: real
  co2 :: real
  ch4 :: real
  n2o :: real
  co2e :: real

datatype error =
    MissingFactors "string list"
  | YearRangeError
  | KeyError string

section \<open>utils.py\<close>

definition DEFAULT_GWP :: "string \<rightharpoonup> real" where
  "DEFAULT_GWP = [''CO2'' \<mapsto> 1.0, ''CH4'' \<mapsto> 28.0, ''N2O'' \<mapsto> 265.0]"

definition clamp :: "real \<Rightarrow> real \<Rightarrow> real \<Rightarrow> real" where
  "clamp v minimum maximum = max minimum (min maximum v)"

definition safe_divide :: "real \<Rightarrow> real \<Rightarrow> real" where
  "safe_divide numerator denominator =
     (if denominator = 0 then 0 else numerator / denominator)"

definition year_range :: "int \<Rightarrow> int \<Rightarrow> error + int list" where
  "year_range start_year end_year =
     (if end_year < start_year then Inl YearRangeError
      else Inr [start_year ..  end_year])"

section \<open>emissions_engine.py\<close>

text \<open>
  \<open>activity_df.merge(factor_df, how="left", on="sector")\<close>: every activity row, in
  order, once for each factor row of its sector (in factor order), or once with NaN
  factors when no factor row has its sector.
\<close>

definition joined :: "activity_row \<Rightarrow> factor_row \<Rightarrow> merged_row" where
  "joined a f = \<lparr>m_sector = sector a, m_activity = activity a,
      m_co2_factor = Some (co2_factor f), m_ch4_factor = Some (ch4_factor f),
      m_n2o_factor = Some (n2o_factor f)\<rparr>"

definition unmatched :: "activity_row \<Rightarrow> merged_row" where
  "unmatched a = \<lparr>m_sector = sector a, m_activity = activity a,
      m_co2_factor = None, m_ch4_factor = None, m_n2o_factor = None\<rparr>"

definition merge_row :: "factor_row list \<Rightarrow> activity_row \<Rightarrow> merged_row list" where
  "merge_row factor_df a =
     (case filter (\<lambda>f. f_sector f = sector a) factor_df of
        [] \<Rightarrow> [unmatched a]
      | f # fs \<Rightarrow> map (joined a) (f # fs))"

definition merge_left :: "activity_row list \<Rightarrow> factor_row list \<Rightarrow> merged_row list" where
  "merge_left activity_df factor_df = concat (map (merge_row factor_df) activity_df)"

definition isna_any :: "merged_row \<Rightarrow> bool" where
  "isna_any m \<longleftrightarrow>
     m_co2_factor m = None \<or> m_ch4_factor m = None \<or> m_n2o_factor m = None"

definition emission :: "(string \<rightharpoonup> real) \<Rightarrow> merged_row \<Rightarrow> emission_row" where
  "emission gwp_values m =
     (let c = m_activity m * the (m_co2_factor m);
          h = m_activity m * the (m_ch4_factor m);
          n = m_activity m * the (m_n2o_factor m)
      in \<lparr>e_sector = m_sector m, e_activity = m_activity m, co2 = c, ch4 = h, n2o = n,
           co2e = c + h * the (gwp_values ''CH4'') + n * the (gwp_values ''N2O'')\<rparr>)"

text \<open>
  The last step of \<open>compute_sector_emissions\<close> is
  \<open>sort_values("co2e", ascending=False)\<close> with pandas' default sort kind. The sort is
  library code; it is a parameter \<open>sort_values\<close> of the model, which receives the sort
  key and the rows.
\<close>

type_synonym sorter = "(emission_row \<Rightarrow> real) \<Rightarrow> emission_row list \<Rightarrow> emission_row list"

definition compute_sector_emissions ::
  "sorter \<Rightarrow> activity_row list \<Rightarrow> factor_row list \<Rightarrow> (string \<rightharpoonup> real) option
     \<Rightarrow> error + emission_row list" where
  "compute_sector_emissions sort_values activity_df factor_df gwp =
     (let gwp_values = DEFAULT_GWP ++ (case gwp of None \<Rightarrow> Map.empty | Some g \<Rightarrow> g);
          merged = merge_left activity_df factor_df
      in if list_ex isna_any merged
         then Inl (MissingFactors (map m_sector (filter (\<lambda>m. m_co2_factor m = None) merged)))
         else Inr (sort_values co2e (map (emission gwp_values) merged)))"

definition aggregate_emissions :: "emission_row list \<Rightarrow> real \<Rightarrow> real \<Rightarrow> real \<times> real \<times> real" where
  "aggregate_emissions sector_emissions population gdp =
     (let tot = sum_list (map co2e sector_emissions)
      in (tot, safe_divide tot population, safe_divide tot gdp))"

section \<open>urban_form.py\<close>



text \<open>
  One round of the loops of \<open>apply_urban_form_modifiers\<close> and \<open>apply_scenario\<close>:
  when some row has the sector, the activity of every such row is multiplied.
\<close>

definition scale_sector :: "activity_row list \<Rightarrow> string \<times> real \<Rightarrow> activity_row list" where
  "scale_sector df item =
     (case item of (s, multiplier) \<Rightarrow>
        if list_ex (\<lambda>r. sector r = s) df
        then map (\<lambda>r. if sector r = s then r\<lparr>activity := activity r * multiplier\<rparr> else r) df
        else df)"

definition apply_urban_form_modifiers ::
  "activity_row list \<Rightarrow> (string \<times> real) list \<Rightarrow> activity_row list" where
  "apply_urban_form_modifiers activity_df modifiers = foldl scale_sector activity_df modifiers"

section \<open>scenario.py\<close>

record Scenario =
  name :: string
  energy_efficiency :: real
  renewable_share :: real
  modal_shift :: real
  industry_efficiency :: real
  waste_reduction :: real

definition normalized :: "Scenario \<Rightarrow> Scenario" where
  "normalized self =
     \<lparr>name = name self,
      energy_efficiency = clamp (energy_efficiency self) 0.0 1.0,
      renewable_share = clamp (renewable_share self) 0.0 1.0,
      modal_shift = clamp (modal_shift self) 0.0 1.0,
      industry_efficiency = clamp (industry_efficiency self) 0.0 1.0,
      waste_reduction = clamp (waste_reduction self) 0.0 1.0\<rparr>"

definition adjustments :: "Scenario \<Rightarrow> (string \<times> real) list" where
  "adjustments scn =
     [(''residential'', 1 - energy_efficiency scn),
      (''energy'', 1 - energy_efficiency scn),
      (''transport'', 1 - modal_shift scn),
      (''industry'', 1 - industry_efficiency scn),
      (''waste'', 1 - waste_reduction scn)]"

definition scale_factors :: "real \<Rightarrow> factor_row \<Rightarrow> factor_row" where
  "scale_factors multiplier f =
     f\<lparr>co2_factor := co2_factor f * multiplier, ch4_factor := ch4_factor f * multiplier,
       n2o_factor := n2o_factor f * multiplier\<rparr>"

definition apply_scenario ::
  "activity_row list \<Rightarrow> factor_row list \<Rightarrow> Scenario \<Rightarrow> activity_row list \<times> factor_row list" where
  "apply_scenario activity_df factor_df scenario =
     (let scn = normalized scenario;
          adjusted_activity = foldl scale_sector activity_df (adjustments scn);
          adjusted_factors =
            (if ''energy'' \<in> set (map f_sector factor_df)
             then map (\<lambda>f. if f_sector f = ''energy''
                              then scale_factors (1 - renewable_share scn) f else f) factor_df
             else factor_df)
      in (adjusted_activity, adjusted_factors))"

text \<open>
  A row of the records that the loop of \<open>forecast_scenarios\<close> collects, and a row of
  the frame it returns, which has two more columns. \<open>baseline_total\<close> comes from a left
  join and is NaN (\<open>None\<close>) without a match. \<open>change_vs_baseline_pct\<close> is the result of a
  float division, which pandas does not raise on: its value is a number, NaN or an
  infinity.
\<close>

datatype cell = Num real | NaN | PosInf | NegInf

record forecast_record =
  year :: int
  scenario :: string
  total_co2e :: real
  per_capita_co2e :: real
  per_gdp_co2e :: real
  population :: real
  gdp :: real

record forecast_row = forecast_record +
  baseline_total :: "real option"
  change_vs_baseline_pct :: cell

definition scale_growth :: "real \<Rightarrow> real \<Rightarrow> activity_row list \<Rightarrow> activity_row list" where
  "scale_growth pop_scale gdp_scale base_activity_df =
     (let scaled = map (\<lambda>r. if sector r \<in> set [''residential'', ''transport'', ''waste'']
                              then r\<lparr>activity := activity r * pop_scale\<rparr> else r)
                       base_activity_df
      in map (\<lambda>r. if sector r \<in> set [''industry'', ''energy'']
                    then r\<lparr>activity := activity r * ((pop_scale + gdp_scale) / 2)\<rparr> else r)
             scaled)"

text \<open>The body of the inner loop: the record of one scenario and one year.\<close>

definition forecast_cell ::
  "sorter \<Rightarrow> activity_row list \<Rightarrow> factor_row list \<Rightarrow> real \<Rightarrow> real \<Rightarrow> real \<Rightarrow> real \<Rightarrow> int
     \<Rightarrow> (string \<times> real) list option \<Rightarrow> Scenario \<Rightarrow> int \<Rightarrow> error + forecast_record" where
  "forecast_cell sort_values base_activity_df factor_df population_base population_growth
       gdp_per_capita_base gdp_growth start_year urban_modifiers scn yr =
     (let t = nat (yr - start_year);
          population_v = population_base * ((1 + population_growth) ^ t);
          gdp_per_capita = gdp_per_capita_base * ((1 + gdp_growth) ^ t);
          gdp_v = population_v * gdp_per_capita;
          pop_scale = (1 + population_growth) ^ t;
          gdp_scale = (1 + gdp_growth) ^ t;
          scaled = scale_growth pop_scale gdp_scale base_activity_df;
          scaled' = (case urban_modifiers of
                       None \<Rightarrow> scaled
                     | Some [] \<Rightarrow> scaled
                     | Some (m # ms) \<Rightarrow> apply_urban_form_modifiers scaled (m # ms));
          adj = apply_scenario scaled' factor_df scn
      in case compute_sector_emissions sort_values (fst adj) (snd adj) None of
           Inl e \<Rightarrow> Inl e
         | Inr sector_rows \<Rightarrow>
             (case aggregate_emissions sector_rows population_v gdp_v of
                (tot, per_capita, per_gdp) \<Rightarrow>
                  Inr \<lparr>year = yr, scenario = name scn, total_co2e = tot,
                       per_capita_co2e = per_capita, per_gdp_co2e = per_gdp,
                       population = population_v, gdp = gdp_v\<rparr>))"

text \<open>A loop that appends one result per element and stops at the first exception.\<close>

fun collect :: "('a \<Rightarrow> error + 'b) \<Rightarrow> 'a list \<Rightarrow> error + 'b list" where
  "collect body [] = Inr []"
| "collect body (x # xs) =
     (case body x of
        Inl e \<Rightarrow> Inl e
      | Inr y \<Rightarrow> (case collect body xs of Inl e \<Rightarrow> Inl e | Inr ys \<Rightarrow> Inr (y # ys)))"

text \<open>
  The inner loop for one scenario: \<open>year_range\<close> is called when the scenario's turn
  comes, so its exception needs a scenario to be raised.
\<close>

definition scenario_records ::
  "sorter \<Rightarrow> activity_row list \<Rightarrow> factor_row list \<Rightarrow> real \<Rightarrow> real \<Rightarrow> real \<Rightarrow> real \<Rightarrow> int \<Rightarrow> int
     \<Rightarrow> (string \<times> real) list option \<Rightarrow> Scenario \<Rightarrow> error + forecast_record list" where
  "scenario_records sort_values base_activity_df factor_df population_base population_growth
       gdp_per_capita_base gdp_growth start_year end_year urban_modifiers scn =
     (case year_range start_year end_year of
        Inl e \<Rightarrow> Inl e
      | Inr years \<Rightarrow>
          collect (forecast_cell sort_values base_activity_df factor_df population_base
                     population_growth gdp_per_capita_base gdp_growth start_year
                     urban_modifiers scn) years)"

text \<open>\<open>str.lower\<close>, on the ASCII letters.\<close>

definition lower_char :: "char \<Rightarrow> char" where
  "lower_char c =
     (case map_of (zip ''ABCDEFGHIJKLMNOPQRSTUVWXYZ'' ''abcdefghijklmnopqrstuvwxyz'') c of
        Some l \<Rightarrow> l
      | None \<Rightarrow> c)"

definition str_lower :: "string \<Rightarrow> string" where
  "str_lower s = map lower_char s"

definition is_baseline :: "string \<Rightarrow> bool" where
  "is_baseline s \<longleftrightarrow> str_lower s = ''baseline''"

text \<open>
  \<open>df.merge(baseline, on="year", how="left")\<close>: every record once for each baseline
  record of its year, or once with NaN when there is none.
\<close>

definition with_baseline :: "forecast_record \<Rightarrow> real option \<Rightarrow> forecast_row" where
  "with_baseline r b =
     \<lparr>year = year r, scenario = scenario r, total_co2e = total_co2e r,
      per_capita_co2e = per_capita_co2e r, per_gdp_co2e = per_gdp_co2e r,
      population = population r, gdp = gdp r,
      baseline_total = b, change_vs_baseline_pct = NaN\<rparr>"

definition merge_baseline :: "forecast_record list \<Rightarrow> forecast_record \<Rightarrow> forecast_row list" where
  "merge_baseline baseline r =
     (case filter (\<lambda>b. year b = year r) baseline of
        [] \<Rightarrow> [with_baseline r None]
      | b # bs \<Rightarrow> map (\<lambda>b. with_baseline r (Some (total_co2e b))) (b # bs))"

definition fdiv :: "real \<Rightarrow> real \<Rightarrow> cell" where
  "fdiv x y =
     (if y = 0 then (if x = 0 then NaN else if 0 < x then PosInf else NegInf)
      else Num (x / y))"

definition times100 :: "cell \<Rightarrow> cell" where
  "times100 c = (case c of Num v \<Rightarrow> Num (v * 100) | NaN \<Rightarrow> NaN | PosInf \<Rightarrow> PosInf | NegInf \<Rightarrow> NegInf)"

definition pct_change :: "real \<Rightarrow> real option \<Rightarrow> cell" where
  "pct_change tot b =
     (case b of None \<Rightarrow> NaN | Some bt \<Rightarrow> times100 (fdiv (tot - bt) bt))"

definition set_change :: "forecast_row \<Rightarrow> forecast_row" where
  "set_change r =
     (if is_baseline (scenario r) then r\<lparr>change_vs_baseline_pct := Num 0.0\<rparr>
      else r\<lparr>change_vs_baseline_pct := pct_change (total_co2e r) (baseline_total r)\<rparr>)"

text \<open>
  \<open>pd.DataFrame(records)\<close> of an empty list has no columns, and
  \<open>df["scenario"]\<close> then raises \<open>KeyError\<close>.
\<close>

definition forecast_scenarios ::
  "sorter \<Rightarrow> activity_row list \<Rightarrow> factor_row list \<Rightarrow> real \<Rightarrow> real \<Rightarrow> real \<Rightarrow> real \<Rightarrow> int \<Rightarrow> int
     \<Rightarrow> Scenario list \<Rightarrow> (string \<times> real) list option \<Rightarrow> error + forecast_row list" where
  "forecast_scenarios sort_values base_activity_df factor_df population_base population_growth
       gdp_per_capita_base gdp_growth start_year end_year scenarios urban_modifiers =
     (case collect (scenario_records sort_values base_activity_df factor_df population_base
                      population_growth gdp_per_capita_base gdp_growth start_year end_year
                      urban_modifiers) scenarios of
        Inl e \<Rightarrow> Inl e
      | Inr per_scenario \<Rightarrow>
          (let records = concat per_scenario in
           if records = [] then Inl (KeyError ''scenario'')
           else
             let baseline = filter (\<lambda>r. is_baseline (scenario r)) records;
                 merged = concat (map (merge_baseline baseline) records)
             in Inr (map set_change merged)))"

section \<open>Sorting in pandas and numpy\<close>
















section \<open>Reference definitions used in the statements\<close>

text \<open>
  One sorter that \<open>sort_values\<close> may be: pandas sorts descending by reversing the rows,
  sorting them ascending and reversing the result; the ascending sort is here insertion
  sort.
\<close>

definition nargsort_desc :: sorter where
  "nargsort_desc k xs = rev (sort_key k (rev xs))"

text \<open>
  The specification's words for the effective GWP (the defaults, overridden per key by
  the overrides supplied) and for the result row of one activity row and one factor row.
\<close>

definition effective_gwp :: "(string \<rightharpoonup> real) option \<Rightarrow> string \<Rightarrow> real" where
  "effective_gwp gwp key =
     (case (case gwp of None \<Rightarrow> None | Some g \<Rightarrow> g key) of
        Some v \<Rightarrow> v
      | None \<Rightarrow> (if key = ''CO2'' then 1.0 else if key = ''CH4'' then 28.0 else 265.0))"

definition sector_result :: "(string \<rightharpoonup> real) option \<Rightarrow> activity_row \<Rightarrow> factor_row \<Rightarrow> emission_row" where
  "sector_result gwp a f =
     \<lparr>e_sector = sector a, e_activity = activity a,
      co2 = activity a * co2_factor f, ch4 = activity a * ch4_factor f,
      n2o = activity a * n2o_factor f,
      co2e = activity a * co2_factor f + activity a * ch4_factor f * effective_gwp gwp ''CH4''
               + activity a * n2o_factor f * effective_gwp gwp ''N2O''\<rparr>"

text \<open>
  The specification's words for the activity multiplier of a (normalized) scenario and
  for the growth multiplier of a sector.
\<close>

definition activity_multiplier :: "Scenario \<Rightarrow> string \<Rightarrow> real" where
  "activity_multiplier scn s =
     (if s = ''residential'' \<or> s = ''energy'' then 1 - energy_efficiency scn
      else if s = ''transport'' then 1 - modal_shift scn
      else if s = ''industry'' then 1 - industry_efficiency scn
      else if s = ''waste'' then 1 - waste_reduction scn
      else 1)"

definition growth_multiplier :: "real \<Rightarrow> real \<Rightarrow> string \<Rightarrow> real" where
  "growth_multiplier pop_scale gdp_scale s =
     (if s = ''residential'' \<or> s = ''transport'' \<or> s = ''waste'' then pop_scale
      else if s = ''industry'' \<or> s = ''energy'' then (pop_scale + gdp_scale) / 2
      else 1)"

text \<open>A small city, two scenarios and the shape of a forecast row, for the examples.\<close>

definition demo_activity :: "activity_row list" where
  "demo_activity =
     [\<lparr>sector = ''residential'', activity = 100\<rparr>, \<lparr>sector = ''energy'', activity = 50\<rparr>]"

definition demo_factors :: "factor_row list" where
  "demo_factors =
     [\<lparr>f_sector = ''residential'', co2_factor = 1, ch4_factor = 0, n2o_factor = 0\<rparr>,
      \<lparr>f_sector = ''energy'', co2_factor = 2, ch4_factor = 0, n2o_factor = 0\<rparr>]"

definition demo_scenario :: "string \<Rightarrow> real \<Rightarrow> Scenario" where
  "demo_scenario n e =
     \<lparr>name = n, energy_efficiency = e, renewable_share = 0, modal_shift = 0,
      industry_efficiency = 0, waste_reduction = 0\<rparr>"

definition demo_row :: "int \<Rightarrow> string \<Rightarrow> real \<Rightarrow> real \<Rightarrow> real \<Rightarrow> real \<Rightarrow> real \<Rightarrow> real \<Rightarrow> cell
    \<Rightarrow> forecast_row" where
  "demo_row y s t pc pg p g b c =
     \<lparr>year = y, scenario = s, total_co2e = t, per_capita_co2e = pc, per_gdp_co2e = pg,
      population = p, gdp = g, baseline_total = Some b, change_vs_baseline_pct = c\<rparr>"



section \<open>Properties of the emissions engine\<close>

lemma filter_distinct_key:
  "distinct (map g xs) \<Longrightarrow> x \<in> set xs \<Longrightarrow> filter (\<lambda>y. g y = g x) xs = [x]"
proof (induction xs)
  case Nil then show ?case by simp
next
  case (Cons y ys)
  show ?case
  proof (cases "y = x")
    case True
    from Cons.prems True have "g x \<notin> g ` set ys" by simp
    then have "\<forall>z\<in>set ys. g z \<noteq> g x" by (metis imageI)
    then have "filter (\<lambda>z. g z = g x) ys = []"
      by (simp add: filter_empty_conv)
    with True show ?thesis by simp
  next
    case False
    with Cons show ?thesis by auto
  qed
qed

lemma gwp_values_lookup:
  "k = ''CH4'' \<or> k = ''N2O'' \<Longrightarrow>
   the ((DEFAULT_GWP ++ (case gwp of None \<Rightarrow> Map.empty | Some g \<Rightarrow> g)) k) = effective_gwp gwp k"
  by (auto simp: DEFAULT_GWP_def effective_gwp_def map_add_def split: option.splits)

lemma emission_joined:
  "emission (DEFAULT_GWP ++ (case gwp of None \<Rightarrow> Map.empty | Some g \<Rightarrow> g)) (joined a f)
     = sector_result gwp a f"
  by (simp add: emission_def joined_def sector_result_def gwp_values_lookup Let_def)

lemma merge_row_unique:
  assumes "distinct (map f_sector factor_df)" "f \<in> set factor_df" "f_sector f = sector a"
  shows "merge_row factor_df a = [joined a f]"
proof -
  have "filter (\<lambda>y. f_sector y = f_sector f) factor_df = [f]"
    using assms(1,2) by (rule filter_distinct_key)
  then show ?thesis using assms(3) by (simp add: merge_row_def)
qed

lemma find_key_Some:
  "\<exists>f\<in>set xs. P f \<Longrightarrow> \<exists>f. find P xs = Some f \<and> f \<in> set xs \<and> P f"
  by (induction xs) auto


lemma merge_row_cases:
  "(sector a \<notin> f_sector ` set factor_df \<and> merge_row factor_df a = [unmatched a]) \<or>
   (sector a \<in> f_sector ` set factor_df \<and>
    merge_row factor_df a = map (joined a) (filter (\<lambda>f. f_sector f = sector a) factor_df))"
proof (cases "filter (\<lambda>f. f_sector f = sector a) factor_df")
  case Nil
  then have "sector a \<notin> f_sector ` set factor_df"
    by (auto simp: filter_empty_conv)
  with Nil show ?thesis by (simp add: merge_row_def)
next
  case (Cons f fs)
  then have "f \<in> set (filter (\<lambda>f. f_sector f = sector a) factor_df)" by simp
  then have "sector a \<in> f_sector ` set factor_df" by force
  with Cons show ?thesis by (simp add: merge_row_def)
qed

lemma merge_row_missing_sectors:
  "map m_sector (filter (\<lambda>m. m_co2_factor m = None) (merge_row factor_df a)) =
     (if sector a \<notin> f_sector ` set factor_df then [sector a] else [])"
  using merge_row_cases [of a factor_df]
  by (auto simp: unmatched_def joined_def filter_empty_conv)

lemma merge_left_missing_sectors:
  "map m_sector (filter (\<lambda>m. m_co2_factor m = None) (merge_left activity_df factor_df)) =
     map sector (filter (\<lambda>a. sector a \<notin> f_sector ` set factor_df) activity_df)"
proof (induction activity_df)
  case Nil
  show ?case by (simp add: merge_left_def)
next
  case (Cons a as)
  have "merge_left (a # as) factor_df = merge_row factor_df a @ merge_left as factor_df"
    by (simp add: merge_left_def)
  with Cons show ?case by (simp add: merge_row_missing_sectors)
qed

lemma merge_left_unmatched:
  assumes "a \<in> set activity_df" "sector a \<notin> f_sector ` set factor_df"
  shows "unmatched a \<in> set (merge_left activity_df factor_df)"
proof -
  have "merge_row factor_df a = [unmatched a]"
    using merge_row_cases [of a factor_df] assms(2) by blast
  with assms(1) show ?thesis by (force simp: merge_left_def)
qed

lemma merge_left_total:
  assumes "\<forall>a\<in>set activity_df. \<exists>f\<in>set factor_df. f_sector f = sector a"
    and "distinct (map f_sector factor_df)"
  shows "merge_left activity_df factor_df =
     map (\<lambda>a. joined a (the (find (\<lambda>f. f_sector f = sector a) factor_df))) activity_df"
proof -
  have "merge_row factor_df a = [joined a (the (find (\<lambda>f. f_sector f = sector a) factor_df))]"
    if "a \<in> set activity_df" for a
  proof -
    from assms(1) that have "\<exists>f\<in>set factor_df. f_sector f = sector a" by blast
    then obtain f where f: "find (\<lambda>f. f_sector f = sector a) factor_df = Some f"
        "f \<in> set factor_df" "f_sector f = sector a"
      using find_key_Some [of factor_df "\<lambda>f. f_sector f = sector a"] by blast
    from assms(2) f(2,3) have "merge_row factor_df a = [joined a f]"
      by (rule merge_row_unique)
    with f(1) show ?thesis by simp
  qed
  then have "map (merge_row factor_df) activity_df =
      map (\<lambda>a. [joined a (the (find (\<lambda>f. f_sector f = sector a) factor_df))]) activity_df"
    by simp
  then have "merge_left activity_df factor_df =
      concat (map (\<lambda>a. [joined a (the (find (\<lambda>f. f_sector f = sector a) factor_df))]) activity_df)"
    unfolding merge_left_def by (rule arg_cong)
  also have "\<dots> = map (\<lambda>a. joined a (the (find (\<lambda>f. f_sector f = sector a) factor_df))) activity_df"
    by (rule concat_map_singleton)
  finally show ?thesis .
qed

lemma isna_any_joined: "\<not> isna_any (joined a f)"
  by (simp add: isna_any_def joined_def)

lemma isna_any_unmatched: "isna_any (unmatched a)"
  by (simp add: isna_any_def unmatched_def)

lemma nargsort_desc_mset: "mset (nargsort_desc k xs) = mset xs"
  by (simp add: nargsort_desc_def)

text \<open>
  Claim C1, as amended. When every activity row's sector has a factor row and the factor
  table has one row per sector, \<open>compute_sector_emissions\<close> returns the rows
  (sector, activity, co2 = activity * co2_factor, ch4 = activity * ch4_factor,
  n2o = activity * n2o_factor, co2e = co2 + ch4 * GWP_CH4 + n2o * GWP_N2O), one for each
  activity row, where the GWP values are the defaults 1, 28 and 265 overridden per key
  by the overrides supplied; activity 100 with factors (1, 0.1, 0.01) and the default
  GWP gives co2e = 645. The sorter only has to return a permutation of its input.
\<close>

theorem compute_sector_emissions_rows:
  assumes "\<forall>k xs. mset (sort_values k xs) = mset xs"
    and "\<forall>a\<in>set activity_df. \<exists>f\<in>set factor_df. f_sector f = sector a"
    and "distinct (map f_sector factor_df)"
  shows "(\<exists>rows. compute_sector_emissions sort_values activity_df factor_df gwp = Inr rows \<and>
            mset rows = mset (map (\<lambda>a. sector_result gwp a
                          (the (find (\<lambda>f. f_sector f = sector a) factor_df))) activity_df)) \<and>
         compute_sector_emissions sort_values
            [\<lparr>sector = ''residential'', activity = 100\<rparr>]
            [\<lparr>f_sector = ''residential'', co2_factor = 1, ch4_factor = 0.1, n2o_factor = 0.01\<rparr>]
            None
          = Inr [\<lparr>e_sector = ''residential'', e_activity = 100, co2 = 100, ch4 = 10, n2o = 1,
                  co2e = 645\<rparr>]"
proof
  let ?pick = "\<lambda>a. the (find (\<lambda>f. f_sector f = sector a) factor_df)"
  have m: "merge_left activity_df factor_df = map (\<lambda>a. joined a (?pick a)) activity_df"
    using assms(2,3) by (rule merge_left_total)
  have "\<not> list_ex isna_any (merge_left activity_df factor_df)"
    by (simp add: m list_ex_iff isna_any_joined)
  then have "compute_sector_emissions sort_values activity_df factor_df gwp =
      Inr (sort_values co2e (map (\<lambda>a. sector_result gwp a (?pick a)) activity_df))"
    by (simp add: compute_sector_emissions_def Let_def m emission_joined comp_def)
  with assms(1) show "\<exists>rows. compute_sector_emissions sort_values activity_df factor_df gwp = Inr rows \<and>
            mset rows = mset (map (\<lambda>a. sector_result gwp a (?pick a)) activity_df)"
    by simp
next
  let ?r = "\<lparr>e_sector = ''residential'', e_activity = 100, co2 = 100, ch4 = 10, n2o = 1,
                  co2e = (645::real)\<rparr>"
  from assms(1) have "mset (sort_values co2e [?r]) = {#?r#}" by simp
  then have "sort_values co2e [?r] = [?r]" by (simp add: mset_single_iff_right)
  then show "compute_sector_emissions sort_values
            [\<lparr>sector = ''residential'', activity = 100\<rparr>]
            [\<lparr>f_sector = ''residential'', co2_factor = 1, ch4_factor = 0.1, n2o_factor = 0.01\<rparr>]
            None = Inr [?r]"
    by (simp add: compute_sector_emissions_def Let_def merge_left_def merge_row_def joined_def
        isna_any_def emission_def DEFAULT_GWP_def)
qed

text \<open>
  Claim C2. When some activity row's sector has no factor row,
  \<open>compute_sector_emissions\<close> returns no rows at all: its result is the error that
  lists the sectors of the activity rows without a factor row, that sector among them.
\<close>

theorem missing_factor_aborts:
  assumes "a \<in> set activity_df" and "sector a \<notin> f_sector ` set factor_df"
  shows "compute_sector_emissions sort_values activity_df factor_df gwp =
     Inl (MissingFactors
       (map sector (filter (\<lambda>a. sector a \<notin> f_sector ` set factor_df) activity_df)))
     \<and> sector a \<in> set (map sector (filter (\<lambda>a. sector a \<notin> f_sector ` set factor_df) activity_df))"
proof -
  have "unmatched a \<in> set (merge_left activity_df factor_df)"
    using assms by (rule merge_left_unmatched)
  then have "list_ex isna_any (merge_left activity_df factor_df)"
    using isna_any_unmatched by (auto simp: list_ex_iff)
  then have "compute_sector_emissions sort_values activity_df factor_df gwp =
     Inl (MissingFactors
       (map sector (filter (\<lambda>a. sector a \<notin> f_sector ` set factor_df) activity_df)))"
    by (simp add: compute_sector_emissions_def Let_def merge_left_missing_sectors)
  moreover have "sector a \<in> set (map sector (filter (\<lambda>a. sector a \<notin> f_sector ` set factor_df) activity_df))"
    using assms by auto
  ultimately show ?thesis by simp
qed



theorem compute_sector_emissions_rows_witness:
  "(\<forall>k xs. mset (nargsort_desc k xs) = mset xs) \<and>
   list_all (\<lambda>a. list_ex (\<lambda>f. f_sector f = sector a)
        [\<lparr>f_sector = ''residential'', co2_factor = 1, ch4_factor = 0.1, n2o_factor = 0.01\<rparr>,
         \<lparr>f_sector = ''transport'', co2_factor = 2, ch4_factor = 0, n2o_factor = 0\<rparr>])
      [\<lparr>sector = ''transport'', activity = 50\<rparr>, \<lparr>sector = ''residential'', activity = 100\<rparr>] \<and>
   distinct (map f_sector
      [\<lparr>f_sector = ''residential'', co2_factor = 1, ch4_factor = 0.1, n2o_factor = 0.01\<rparr>,
       \<lparr>f_sector = ''transport'', co2_factor = 2, ch4_factor = 0, n2o_factor = 0\<rparr>]) \<and>
   (\<exists>rows. compute_sector_emissions nargsort_desc
        [\<lparr>sector = ''transport'', activity = 50\<rparr>, \<lparr>sector = ''residential'', activity = 100\<rparr>]
        [\<lparr>f_sector = ''residential'', co2_factor = 1, ch4_factor = 0.1, n2o_factor = 0.01\<rparr>,
         \<lparr>f_sector = ''transport'', co2_factor = 2, ch4_factor = 0, n2o_factor = 0\<rparr>]
        None = Inr rows \<and>
      mset rows =
        {#\<lparr>e_sector = ''transport'', e_activity = 50, co2 = 100, ch4 = 0, n2o = 0, co2e = 100\<rparr>,
          \<lparr>e_sector = ''residential'', e_activity = 100, co2 = 100, ch4 = 10, n2o = 1,
            co2e = 645\<rparr>#})"
proof -
  let ?act = "[\<lparr>sector = ''transport'', activity = 50\<rparr>, \<lparr>sector = ''residential'', activity = 100\<rparr>]"
  let ?fac = "[\<lparr>f_sector = ''residential'', co2_factor = 1, ch4_factor = 0.1, n2o_factor = 0.01\<rparr>,
       \<lparr>f_sector = ''transport'', co2_factor = 2, ch4_factor = 0, n2o_factor = 0\<rparr>]"
  have p: "\<forall>k xs. mset (nargsort_desc k xs) = mset xs"
    by (simp add: nargsort_desc_mset)
  have n: "\<forall>a\<in>set ?act. \<exists>f\<in>set ?fac. f_sector f = sector a" by simp
  have d: "distinct (map f_sector ?fac)" by simp
  from compute_sector_emissions_rows [OF p n d, of None]
  obtain rows where r: "compute_sector_emissions nargsort_desc ?act ?fac None = Inr rows"
    "mset rows = mset (map (\<lambda>a. sector_result None a
        (the (find (\<lambda>f. f_sector f = sector a) ?fac))) ?act)"
    by blast
  from r(2) have "mset rows =
        {#\<lparr>e_sector = ''transport'', e_activity = 50, co2 = 100, ch4 = 0, n2o = 0, co2e = 100\<rparr>,
          \<lparr>e_sector = ''residential'', e_activity = 100, co2 = 100, ch4 = 10, n2o = 1,
            co2e = 645\<rparr>#}"
    by (simp add: sector_result_def effective_gwp_def)
  moreover have "list_all (\<lambda>a. list_ex (\<lambda>f. f_sector f = sector a) ?fac) ?act" by simp
  ultimately show ?thesis using r(1) p d by blast
qed

theorem missing_factor_aborts_witness:
  "\<lparr>sector = ''waste'', activity = 5\<rparr>
     \<in> set [\<lparr>sector = ''residential'', activity = 100\<rparr>, \<lparr>sector = ''waste'', activity = 5\<rparr>] \<and>
   sector \<lparr>sector = ''waste'', activity = 5\<rparr> \<notin> f_sector `
     set [\<lparr>f_sector = ''residential'', co2_factor = 1, ch4_factor = 0.1, n2o_factor = 0.01\<rparr>] \<and>
   compute_sector_emissions nargsort_desc
     [\<lparr>sector = ''residential'', activity = 100\<rparr>, \<lparr>sector = ''waste'', activity = 5\<rparr>]
     [\<lparr>f_sector = ''residential'', co2_factor = 1, ch4_factor = 0.1, n2o_factor = 0.01\<rparr>]
     None = Inl (MissingFactors [''waste''])"
proof -
  let ?a = "\<lparr>sector = ''waste'', activity = 5\<rparr>"
  let ?act = "[\<lparr>sector = ''residential'', activity = 100\<rparr>, ?a]"
  let ?fac = "[\<lparr>f_sector = ''residential'', co2_factor = 1, ch4_factor = 0.1, n2o_factor = 0.01\<rparr>]"
  have m: "?a \<in> set ?act" by simp
  have u: "sector ?a \<notin> f_sector ` set ?fac" by simp
  from missing_factor_aborts [OF m u, of nargsort_desc None] m u
  show ?thesis by simp
qed

text \<open>
  Claim C1 as stated fails when the factor table joins without a miss but has two rows
  for a sector: the one activity row comes back as two result rows.
\<close>

theorem two_matches_counterexample:
  "list_all (\<lambda>a. list_ex (\<lambda>f. f_sector f = sector a)
        [\<lparr>f_sector = ''residential'', co2_factor = 1, ch4_factor = 0.1, n2o_factor = 0.01\<rparr>,
         \<lparr>f_sector = ''residential'', co2_factor = 2, ch4_factor = 0, n2o_factor = 0\<rparr>])
      [\<lparr>sector = ''residential'', activity = 100\<rparr>] \<and>
   compute_sector_emissions nargsort_desc
     [\<lparr>sector = ''residential'', activity = 100\<rparr>]
     [\<lparr>f_sector = ''residential'', co2_factor = 1, ch4_factor = 0.1, n2o_factor = 0.01\<rparr>,
      \<lparr>f_sector = ''residential'', co2_factor = 2, ch4_factor = 0, n2o_factor = 0\<rparr>]
     None
   = Inr [\<lparr>e_sector = ''residential'', e_activity = 100, co2 = 100, ch4 = 10, n2o = 1,
            co2e = 645\<rparr>,
          \<lparr>e_sector = ''residential'', e_activity = 100, co2 = 200, ch4 = 0, n2o = 0,
            co2e = 200\<rparr>]"
  by (simp add: compute_sector_emissions_def Let_def merge_left_def merge_row_def joined_def
      isna_any_def emission_def DEFAULT_GWP_def nargsort_desc_def)


section \<open>Claims settled by evaluation and by the clamps\<close>

text \<open>
  Claim C10. With no scenario, \<open>forecast_scenarios\<close> returns no frame, whatever its
  other arguments are: its result is the \<open>KeyError\<close> of the first column lookup of the
  baseline join. This holds also when \<open>end_year < start_year\<close>: the error of
  \<open>year_range\<close> is not the result.
\<close>

theorem forecast_scenarios_no_scenarios:
  "forecast_scenarios sort_values base_activity_df factor_df population_base population_growth
     gdp_per_capita_base gdp_growth start_year end_year [] urban_modifiers = Inl (KeyError ''scenario'')"
  by (simp add: forecast_scenarios_def)



text \<open>
  Claim C7. With two factor rows for the sector of an activity row, the join keeps both:
  the result has two rows for the one activity row, the second factor row's among them.
\<close>

theorem duplicate_factor_rows_duplicate_results:
  "compute_sector_emissions nargsort_desc
     [\<lparr>sector = ''energy'', activity = 10\<rparr>]
     [\<lparr>f_sector = ''energy'', co2_factor = 1, ch4_factor = 0, n2o_factor = 0\<rparr>,
      \<lparr>f_sector = ''energy'', co2_factor = 2, ch4_factor = 0, n2o_factor = 0\<rparr>]
     None
   = Inr [\<lparr>e_sector = ''energy'', e_activity = 10, co2 = 20, ch4 = 0, n2o = 0, co2e = 20\<rparr>,
          \<lparr>e_sector = ''energy'', e_activity = 10, co2 = 10, ch4 = 0, n2o = 0, co2e = 10\<rparr>]"
  by (simp add: compute_sector_emissions_def Let_def merge_left_def merge_row_def joined_def
      isna_any_def emission_def DEFAULT_GWP_def nargsort_desc_def)








section \<open>Properties of scenario application\<close>

lemma scale_sector_map:
  "scale_sector df (s, m) =
     map (\<lambda>r. if sector r = s then r\<lparr>activity := activity r * m\<rparr> else r) df"
proof (cases "list_ex (\<lambda>r. sector r = s) df")
  case True
  then show ?thesis by (simp add: scale_sector_def)
next
  case False
  then have "\<forall>r\<in>set df. sector r \<noteq> s" by (simp add: list_ex_iff)
  then have "map (\<lambda>r. if sector r = s then r\<lparr>activity := activity r * m\<rparr> else r) df = map (\<lambda>r. r) df"
    by (intro map_cong) auto
  with False show ?thesis by (simp add: scale_sector_def)
qed

lemma foldl_adjustments:
  "foldl scale_sector df (adjustments scn) =
     map (\<lambda>r. r\<lparr>activity := activity r * activity_multiplier scn (sector r)\<rparr>) df"
  by (simp add: adjustments_def scale_sector_map activity_multiplier_def comp_def)

lemma map_if_absent:
  "\<forall>x\<in>set xs. \<not> P x \<Longrightarrow> map (\<lambda>x. if P x then g x else x) xs = xs"
  by (induction xs) auto

lemma energy_factors_map:
  "(if ''energy'' \<in> set (map f_sector factor_df)
    then map (\<lambda>f. if f_sector f = ''energy'' then scale_factors m f else f) factor_df
    else factor_df) =
   map (\<lambda>f. if f_sector f = ''energy'' then scale_factors m f else f) factor_df"
proof (cases "''energy'' \<in> set (map f_sector factor_df)")
  case True
  then show ?thesis by simp
next
  case False
  then have "\<forall>f\<in>set factor_df. \<not> f_sector f = ''energy''" by (metis imageI set_map)
  then have "map (\<lambda>f. if f_sector f = ''energy'' then scale_factors m f else f) factor_df = factor_df"
    by (rule map_if_absent)
  with False show ?thesis by simp
qed

lemma apply_scenario_maps:
  "apply_scenario activity_df factor_df scn =
     (map (\<lambda>r. r\<lparr>activity := activity r * activity_multiplier (normalized scn) (sector r)\<rparr>)
          activity_df,
      map (\<lambda>f. if f_sector f = ''energy''
                then f\<lparr>co2_factor := co2_factor f * (1 - renewable_share (normalized scn)),
                       ch4_factor := ch4_factor f * (1 - renewable_share (normalized scn)),
                       n2o_factor := n2o_factor f * (1 - renewable_share (normalized scn))\<rparr>
                else f) factor_df)"
  unfolding apply_scenario_def Let_def foldl_adjustments energy_factors_map
  by (simp add: scale_factors_def)

text \<open>
  Claim C5. \<open>apply_scenario\<close> clamps the five intensities of the scenario into [0, 1]
  and multiplies the activity of residential and energy rows by 1 - energy_efficiency,
  of transport rows by 1 - modal_shift, of industry rows by 1 - industry_efficiency and
  of waste rows by 1 - waste_reduction; the three factors of energy rows are multiplied
  by 1 - renewable_share and no other factor changes. Rows of other sectors are unchanged
  and a sector without rows changes nothing. With energy_efficiency 0.1, modal_shift 0.2
  and renewable_share 0.3, transport 2000 becomes 1600, residential 1000 becomes 900 and
  the energy co2_factor 1 becomes 0.7; with energy_efficiency 2, modal_shift -1 and
  renewable_share 1.5 the intensities count as 1, 0 and 1.
\<close>

theorem apply_scenario_effect:
  "apply_scenario activity_df factor_df scn =
     (map (\<lambda>r. r\<lparr>activity := activity r *
             (if sector r = ''residential'' \<or> sector r = ''energy''
                then 1 - max 0 (min 1 (energy_efficiency scn))
              else if sector r = ''transport'' then 1 - max 0 (min 1 (modal_shift scn))
              else if sector r = ''industry'' then 1 - max 0 (min 1 (industry_efficiency scn))
              else if sector r = ''waste'' then 1 - max 0 (min 1 (waste_reduction scn))
              else 1)\<rparr>)
          activity_df,
      map (\<lambda>f. if f_sector f = ''energy''
                then f\<lparr>co2_factor := co2_factor f * (1 - max 0 (min 1 (renewable_share scn))),
                       ch4_factor := ch4_factor f * (1 - max 0 (min 1 (renewable_share scn))),
                       n2o_factor := n2o_factor f * (1 - max 0 (min 1 (renewable_share scn)))\<rparr>
                else f) factor_df) \<and>
   apply_scenario
     [\<lparr>sector = ''residential'', activity = 1000\<rparr>, \<lparr>sector = ''transport'', activity = 2000\<rparr>,
      \<lparr>sector = ''industry'', activity = 500\<rparr>, \<lparr>sector = ''waste'', activity = 200\<rparr>,
      \<lparr>sector = ''energy'', activity = 800\<rparr>]
     [\<lparr>f_sector = ''residential'', co2_factor = 1, ch4_factor = 0, n2o_factor = 0\<rparr>,
      \<lparr>f_sector = ''transport'', co2_factor = 1, ch4_factor = 0, n2o_factor = 0\<rparr>,
      \<lparr>f_sector = ''industry'', co2_factor = 1, ch4_factor = 0, n2o_factor = 0\<rparr>,
      \<lparr>f_sector = ''waste'', co2_factor = 1, ch4_factor = 0, n2o_factor = 0\<rparr>,
      \<lparr>f_sector = ''energy'', co2_factor = 1, ch4_factor = 0, n2o_factor = 0\<rparr>]
     \<lparr>name = ''mit'', energy_efficiency = 0.1, renewable_share = 0.3, modal_shift = 0.2,
       industry_efficiency = 0, waste_reduction = 0\<rparr>
   = ([\<lparr>sector = ''residential'', activity = 900\<rparr>, \<lparr>sector = ''transport'', activity = 1600\<rparr>,
       \<lparr>sector = ''industry'', activity = 500\<rparr>, \<lparr>sector = ''waste'', activity = 200\<rparr>,
       \<lparr>sector = ''energy'', activity = 720\<rparr>],
      [\<lparr>f_sector = ''residential'', co2_factor = 1, ch4_factor = 0, n2o_factor = 0\<rparr>,
       \<lparr>f_sector = ''transport'', co2_factor = 1, ch4_factor = 0, n2o_factor = 0\<rparr>,
       \<lparr>f_sector = ''industry'', co2_factor = 1, ch4_factor = 0, n2o_factor = 0\<rparr>,
       \<lparr>f_sector = ''waste'', co2_factor = 1, ch4_factor = 0, n2o_factor = 0\<rparr>,
       \<lparr>f_sector = ''energy'', co2_factor = 0.7, ch4_factor = 0, n2o_factor = 0\<rparr>]) \<and>
   apply_scenario
     [\<lparr>sector = ''residential'', activity = 1000\<rparr>, \<lparr>sector = ''transport'', activity = 2000\<rparr>,
      \<lparr>sector = ''industry'', activity = 500\<rparr>, \<lparr>sector = ''waste'', activity = 200\<rparr>,
      \<lparr>sector = ''energy'', activity = 800\<rparr>]
     [\<lparr>f_sector = ''residential'', co2_factor = 1, ch4_factor = 0, n2o_factor = 0\<rparr>,
      \<lparr>f_sector = ''transport'', co2_factor = 1, ch4_factor = 0, n2o_factor = 0\<rparr>,
      \<lparr>f_sector = ''industry'', co2_factor = 1, ch4_factor = 0, n2o_factor = 0\<rparr>,
      \<lparr>f_sector = ''waste'', co2_factor = 1, ch4_factor = 0, n2o_factor = 0\<rparr>,
      \<lparr>f_sector = ''energy'', co2_factor = 1, ch4_factor = 0, n2o_factor = 0\<rparr>]
     \<lparr>name = ''out of range'', energy_efficiency = 2, renewable_share = 1.5, modal_shift = - 1,
       industry_efficiency = 0, waste_reduction = 0\<rparr>
   = ([\<lparr>sector = ''residential'', activity = 0\<rparr>, \<lparr>sector = ''transport'', activity = 2000\<rparr>,
       \<lparr>sector = ''industry'', activity = 500\<rparr>, \<lparr>sector = ''waste'', activity = 200\<rparr>,
       \<lparr>sector = ''energy'', activity = 0\<rparr>],
      [\<lparr>f_sector = ''residential'', co2_factor = 1, ch4_factor = 0, n2o_factor = 0\<rparr>,
       \<lparr>f_sector = ''transport'', co2_factor = 1, ch4_factor = 0, n2o_factor = 0\<rparr>,
       \<lparr>f_sector = ''industry'', co2_factor = 1, ch4_factor = 0, n2o_factor = 0\<rparr>,
       \<lparr>f_sector = ''waste'', co2_factor = 1, ch4_factor = 0, n2o_factor = 0\<rparr>,
       \<lparr>f_sector = ''energy'', co2_factor = 0, ch4_factor = 0, n2o_factor = 0\<rparr>])"
proof (intro conjI)
  show "apply_scenario activity_df factor_df scn =
     (map (\<lambda>r. r\<lparr>activity := activity r *
             (if sector r = ''residential'' \<or> sector r = ''energy''
                then 1 - max 0 (min 1 (energy_efficiency scn))
              else if sector r = ''transport'' then 1 - max 0 (min 1 (modal_shift scn))
              else if sector r = ''industry'' then 1 - max 0 (min 1 (industry_efficiency scn))
              else if sector r = ''waste'' then 1 - max 0 (min 1 (waste_reduction scn))
              else 1)\<rparr>)
          activity_df,
      map (\<lambda>f. if f_sector f = ''energy''
                then f\<lparr>co2_factor := co2_factor f * (1 - max 0 (min 1 (renewable_share scn))),
                       ch4_factor := ch4_factor f * (1 - max 0 (min 1 (renewable_share scn))),
                       n2o_factor := n2o_factor f * (1 - max 0 (min 1 (renewable_share scn)))\<rparr>
                else f) factor_df)"
    unfolding apply_scenario_maps
    by (simp add: activity_multiplier_def normalized_def clamp_def)
next
  show "apply_scenario
     [\<lparr>sector = ''residential'', activity = 1000\<rparr>, \<lparr>sector = ''transport'', activity = 2000\<rparr>,
      \<lparr>sector = ''industry'', activity = 500\<rparr>, \<lparr>sector = ''waste'', activity = 200\<rparr>,
      \<lparr>sector = ''energy'', activity = 800\<rparr>]
     [\<lparr>f_sector = ''residential'', co2_factor = 1, ch4_factor = 0, n2o_factor = 0\<rparr>,
      \<lparr>f_sector = ''transport'', co2_factor = 1, ch4_factor = 0, n2o_factor = 0\<rparr>,
      \<lparr>f_sector = ''industry'', co2_factor = 1, ch4_factor = 0, n2o_factor = 0\<rparr>,
      \<lparr>f_sector = ''waste'', co2_factor = 1, ch4_factor = 0, n2o_factor = 0\<rparr>,
      \<lparr>f_sector = ''energy'', co2_factor = 1, ch4_factor = 0, n2o_factor = 0\<rparr>]
     \<lparr>name = ''mit'', energy_efficiency = 0.1, renewable_share = 0.3, modal_shift = 0.2,
       industry_efficiency = 0, waste_reduction = 0\<rparr>
   = ([\<lparr>sector = ''residential'', activity = 900\<rparr>, \<lparr>sector = ''transport'', activity = 1600\<rparr>,
       \<lparr>sector = ''industry'', activity = 500\<rparr>, \<lparr>sector = ''waste'', activity = 200\<rparr>,
       \<lparr>sector = ''energy'', activity = 720\<rparr>],
      [\<lparr>f_sector = ''residential'', co2_factor = 1, ch4_factor = 0, n2o_factor = 0\<rparr>,
       \<lparr>f_sector = ''transport'', co2_factor = 1, ch4_factor = 0, n2o_factor = 0\<rparr>,
       \<lparr>f_sector = ''industry'', co2_factor = 1, ch4_factor = 0, n2o_factor = 0\<rparr>,
       \<lparr>f_sector = ''waste'', co2_factor = 1, ch4_factor = 0, n2o_factor = 0\<rparr>,
       \<lparr>f_sector = ''energy'', co2_factor = 0.7, ch4_factor = 0, n2o_factor = 0\<rparr>])"
    by (simp add: apply_scenario_def Let_def normalized_def clamp_def adjustments_def
        scale_sector_def scale_factors_def)
next
  show "apply_scenario
     [\<lparr>sector = ''residential'', activity = 1000\<rparr>, \<lparr>sector = ''transport'', activity = 2000\<rparr>,
      \<lparr>sector = ''industry'', activity = 500\<rparr>, \<lparr>sector = ''waste'', activity = 200\<rparr>,
      \<lparr>sector = ''energy'', activity = 800\<rparr>]
     [\<lparr>f_sector = ''residential'', co2_factor = 1, ch4_factor = 0, n2o_factor = 0\<rparr>,
      \<lparr>f_sector = ''transport'', co2_factor = 1, ch4_factor = 0, n2o_factor = 0\<rparr>,
      \<lparr>f_sector = ''industry'', co2_factor = 1, ch4_factor = 0, n2o_factor = 0\<rparr>,
      \<lparr>f_sector = ''waste'', co2_factor = 1, ch4_factor = 0, n2o_factor = 0\<rparr>,
      \<lparr>f_sector = ''energy'', co2_factor = 1, ch4_factor = 0, n2o_factor = 0\<rparr>]
     \<lparr>name = ''out of range'', energy_efficiency = 2, renewable_share = 1.5, modal_shift = - 1,
       industry_efficiency = 0, waste_reduction = 0\<rparr>
   = ([\<lparr>sector = ''residential'', activity = 0\<rparr>, \<lparr>sector = ''transport'', activity = 2000\<rparr>,
       \<lparr>sector = ''industry'', activity = 500\<rparr>, \<lparr>sector = ''waste'', activity = 200\<rparr>,
       \<lparr>sector = ''energy'', activity = 0\<rparr>],
      [\<lparr>f_sector = ''residential'', co2_factor = 1, ch4_factor = 0, n2o_factor = 0\<rparr>,
       \<lparr>f_sector = ''transport'', co2_factor = 1, ch4_factor = 0, n2o_factor = 0\<rparr>,
       \<lparr>f_sector = ''industry'', co2_factor = 1, ch4_factor = 0, n2o_factor = 0\<rparr>,
       \<lparr>f_sector = ''waste'', co2_factor = 1, ch4_factor = 0, n2o_factor = 0\<rparr>,
       \<lparr>f_sector = ''energy'', co2_factor = 0, ch4_factor = 0, n2o_factor = 0\<rparr>])"
    by (simp add: apply_scenario_def Let_def normalized_def clamp_def adjustments_def
        scale_sector_def scale_factors_def)
qed



section \<open>Properties of the forecast\<close>

lemma collect_Inr_D:
  "collect body xs = Inr ys \<Longrightarrow> list_all2 (\<lambda>x y. body x = Inr y) xs ys"
  by (induction xs arbitrary: ys) (auto split: sum.splits)

lemma collect_Inr_I:
  "list_all2 (\<lambda>x y. body x = Inr y) xs ys \<Longrightarrow> collect body xs = Inr ys"
  by (induction rule: list_all2_induct) auto

lemma forecast_cell_Inr:
  assumes "forecast_cell sv base fac pb pg gb gg start_year um scn y = Inr r"
  shows "year r = y \<and> scenario r = name scn \<and>
         population r = pb * (1 + pg) ^ nat (y - start_year) \<and>
         gdp r = population r * (gb * (1 + gg) ^ nat (y - start_year)) \<and>
         (\<exists>em. compute_sector_emissions sv
                 (fst (apply_scenario
                    (case um of None \<Rightarrow> scale_growth ((1 + pg) ^ nat (y - start_year)) ((1 + gg) ^ nat (y - start_year)) base
                     | Some ms \<Rightarrow> apply_urban_form_modifiers
                          (scale_growth ((1 + pg) ^ nat (y - start_year)) ((1 + gg) ^ nat (y - start_year)) base) ms)
                    fac scn))
                 (snd (apply_scenario
                    (case um of None \<Rightarrow> scale_growth ((1 + pg) ^ nat (y - start_year)) ((1 + gg) ^ nat (y - start_year)) base
                     | Some ms \<Rightarrow> apply_urban_form_modifiers
                          (scale_growth ((1 + pg) ^ nat (y - start_year)) ((1 + gg) ^ nat (y - start_year)) base) ms)
                    fac scn))
                 None = Inr em \<and>
               total_co2e r = sum_list (map co2e em))"
proof -
  let ?s = "scale_growth ((1 + pg) ^ nat (y - start_year)) ((1 + gg) ^ nat (y - start_year)) base"
  have u: "(case um of None \<Rightarrow> ?s | Some [] \<Rightarrow> ?s | Some (m # ms) \<Rightarrow> apply_urban_form_modifiers ?s (m # ms))
     = (case um of None \<Rightarrow> ?s | Some ms \<Rightarrow> apply_urban_form_modifiers ?s ms)"
    by (simp add: apply_urban_form_modifiers_def split: option.splits list.splits)
  from assms show ?thesis
    unfolding forecast_cell_def Let_def u
    by (auto simp: aggregate_emissions_def Let_def split: sum.splits prod.splits)
qed

lemma scale_growth_map:
  "scale_growth ps gs df =
     map (\<lambda>r. r\<lparr>activity := activity r * growth_multiplier ps gs (sector r)\<rparr>) df"
  by (simp add: scale_growth_def growth_multiplier_def comp_def)

lemma sector_scale_growth: "map sector (scale_growth ps gs df) = map sector df"
  by (simp add: scale_growth_map comp_def)

lemma sector_scale_sector: "map sector (scale_sector df item) = map sector df"
  by (cases item) (simp add: scale_sector_map comp_def)

lemma sector_foldl_scale_sector: "map sector (foldl scale_sector df items) = map sector df"
  by (induction items arbitrary: df) (simp_all add: sector_scale_sector)

lemma sector_apply_urban_form_modifiers:
  "map sector (apply_urban_form_modifiers df items) = map sector df"
  by (simp add: apply_urban_form_modifiers_def sector_foldl_scale_sector)

lemma sector_apply_scenario:
  "map sector (fst (apply_scenario df fac scn)) = map sector df"
  by (simp add: apply_scenario_maps comp_def)

lemma f_sector_apply_scenario:
  "map f_sector (snd (apply_scenario df fac scn)) = map f_sector fac"
  by (simp add: apply_scenario_maps comp_def)

lemma merge_left_no_nan:
  assumes "\<forall>a\<in>set activity_df. sector a \<in> f_sector ` set factor_df"
  shows "\<not> list_ex isna_any (merge_left activity_df factor_df)"
proof -
  have "\<not> isna_any m" if "a \<in> set activity_df" "m \<in> set (merge_row factor_df a)" for a m
  proof -
    from assms that(1) have "sector a \<in> f_sector ` set factor_df" by blast
    with merge_row_cases [of a factor_df]
    have "merge_row factor_df a = map (joined a) (filter (\<lambda>f. f_sector f = sector a) factor_df)"
      by blast
    with that(2) obtain f where "m = joined a f" by auto
    then show ?thesis by (simp add: isna_any_joined)
  qed
  then show ?thesis by (auto simp: list_ex_iff merge_left_def)
qed

lemma compute_sector_emissions_succeeds:
  assumes "set (map sector activity_df) \<subseteq> set (map f_sector factor_df)"
  shows "\<exists>rows. compute_sector_emissions sv activity_df factor_df gwp = Inr rows"
proof -
  from assms have "\<forall>a\<in>set activity_df. sector a \<in> f_sector ` set factor_df" by auto
  then have "\<not> list_ex isna_any (merge_left activity_df factor_df)"
    by (rule merge_left_no_nan)
  then show ?thesis by (simp add: compute_sector_emissions_def Let_def)
qed

lemma forecast_cell_succeeds:
  assumes "set (map sector base) \<subseteq> set (map f_sector fac)"
  shows "\<exists>r. forecast_cell sv base fac pb pg gb gg start_year um scn y = Inr r"
proof -
  let ?s = "scale_growth ((1 + pg) ^ nat (y - start_year)) ((1 + gg) ^ nat (y - start_year)) base"
  let ?u = "(case um of None \<Rightarrow> ?s | Some [] \<Rightarrow> ?s
             | Some (m # ms) \<Rightarrow> apply_urban_form_modifiers ?s (m # ms))"
  have "map sector ?u = map sector base"
    by (simp add: sector_apply_urban_form_modifiers sector_scale_growth
        split: option.splits list.splits)
  then have "set (map sector (fst (apply_scenario ?u fac scn)))
      \<subseteq> set (map f_sector (snd (apply_scenario ?u fac scn)))"
    using assms by (simp only: sector_apply_scenario f_sector_apply_scenario)
  then obtain rows where
    "compute_sector_emissions sv (fst (apply_scenario ?u fac scn)) (snd (apply_scenario ?u fac scn)) None
       = Inr rows"
    using compute_sector_emissions_succeeds by blast
  then show ?thesis
    unfolding forecast_cell_def Let_def
    by (simp add: aggregate_emissions_def Let_def split: prod.splits)
qed

lemma list_all2_right_member:
  "list_all2 P xs ys \<Longrightarrow> y \<in> set ys \<Longrightarrow> \<exists>x\<in>set xs. P x y"
  by (induction rule: list_all2_induct) auto

lemma list_all2_left_member:
  "list_all2 P xs ys \<Longrightarrow> x \<in> set xs \<Longrightarrow> \<exists>y\<in>set ys. P x y"
  by (induction rule: list_all2_induct) auto

lemma scenario_records_Inr:
  assumes "scenario_records sv base fac pb pg gb gg start_year end_year um scn = Inr rs"
  shows "start_year \<le> end_year \<and>
         list_all2 (\<lambda>y r. forecast_cell sv base fac pb pg gb gg start_year um scn y = Inr r) [start_year..end_year] rs"
  using assms
  by (auto simp: scenario_records_def year_range_def split: if_splits intro: collect_Inr_D)

lemma forecast_scenarios_Inr:
  assumes "forecast_scenarios sv base fac pb pg gb gg start_year end_year scenarios um = Inr rows"
  shows "\<exists>per. list_all2 (\<lambda>scn rs. scenario_records sv base fac pb pg gb gg start_year end_year um scn = Inr rs)
                  scenarios per \<and>
               rows = map set_change (concat (map
                  (merge_baseline (filter (\<lambda>r. is_baseline (scenario r)) (concat per)))
                  (concat per)))"
  using assms
  by (auto simp: forecast_scenarios_def Let_def split: sum.splits if_splits dest: collect_Inr_D)

lemma records_sound:
  assumes "list_all2 (\<lambda>scn rs. scenario_records sv base fac pb pg gb gg start_year end_year um scn = Inr rs)
             scenarios per"
    and "r \<in> set (concat per)"
  shows "\<exists>scn\<in>set scenarios. \<exists>y. start_year \<le> y \<and> y \<le> end_year \<and>
           forecast_cell sv base fac pb pg gb gg start_year um scn y = Inr r"
proof -
  from assms(2) obtain rs where rs: "rs \<in> set per" "r \<in> set rs" by auto
  from list_all2_right_member [OF assms(1) rs(1)]
  obtain scn where scn: "scn \<in> set scenarios"
      "scenario_records sv base fac pb pg gb gg start_year end_year um scn = Inr rs" by blast
  from scenario_records_Inr [OF scn(2)]
  have "list_all2 (\<lambda>y r. forecast_cell sv base fac pb pg gb gg start_year um scn y = Inr r) [start_year..end_year] rs"
    by simp
  from list_all2_right_member [OF this rs(2)]
  obtain y where "y \<in> set [start_year..end_year]" "forecast_cell sv base fac pb pg gb gg start_year um scn y = Inr r"
    by blast
  with scn(1) show ?thesis by auto
qed

lemma records_complete:
  assumes "list_all2 (\<lambda>scn rs. scenario_records sv base fac pb pg gb gg start_year end_year um scn = Inr rs)
             scenarios per"
    and "scn \<in> set scenarios" and "start_year \<le> y" and "y \<le> end_year"
  shows "\<exists>r\<in>set (concat per). forecast_cell sv base fac pb pg gb gg start_year um scn y = Inr r"
proof -
  from list_all2_left_member [OF assms(1,2)]
  obtain rs where rs: "rs \<in> set per"
      "scenario_records sv base fac pb pg gb gg start_year end_year um scn = Inr rs" by blast
  from scenario_records_Inr [OF rs(2)]
  have l: "list_all2 (\<lambda>y r. forecast_cell sv base fac pb pg gb gg start_year um scn y = Inr r) [start_year..end_year] rs"
    by simp
  from assms(3,4) have "y \<in> set [start_year..end_year]" by simp
  from list_all2_left_member [OF l this]
  obtain r where "r \<in> set rs" "forecast_cell sv base fac pb pg gb gg start_year um scn y = Inr r"
    by blast
  with rs(1) show ?thesis by auto
qed

lemma merge_baseline_member:
  assumes "x \<in> set (merge_baseline bl r)"
  shows "(x = with_baseline r None \<and> (\<forall>b\<in>set bl. year b \<noteq> year r)) \<or>
         (\<exists>b\<in>set bl. year b = year r \<and> x = with_baseline r (Some (total_co2e b)))"
proof (cases "filter (\<lambda>b. year b = year r) bl")
  case Nil
  then have "\<forall>b\<in>set bl. year b \<noteq> year r" by (simp add: filter_empty_conv)
  with assms Nil show ?thesis by (simp add: merge_baseline_def)
next
  case (Cons b bs)
  with assms have "x \<in> (\<lambda>b. with_baseline r (Some (total_co2e b))) ` set (filter (\<lambda>b. year b = year r) bl)"
    by (simp add: merge_baseline_def)
  then show ?thesis by auto
qed

lemma merge_baseline_nonempty: "merge_baseline bl r \<noteq> []"
  by (simp add: merge_baseline_def split: list.splits)

lemma set_change_fields:
  "year (set_change (with_baseline r b)) = year r"
  "scenario (set_change (with_baseline r b)) = scenario r"
  "total_co2e (set_change (with_baseline r b)) = total_co2e r"
  "population (set_change (with_baseline r b)) = population r"
  "gdp (set_change (with_baseline r b)) = gdp r"
  "baseline_total (set_change (with_baseline r b)) = b"
  "change_vs_baseline_pct (set_change (with_baseline r b)) =
     (if is_baseline (scenario r) then Num 0 else pct_change (total_co2e r) b)"
  by (simp_all add: set_change_def with_baseline_def)

lemma rows_sound:
  assumes "x \<in> set (map set_change (concat (map (merge_baseline bl) recs)))"
  shows "\<exists>r\<in>set recs. \<exists>b. x = set_change (with_baseline r b) \<and>
           ((b = None \<and> (\<forall>br\<in>set bl. year br \<noteq> year r)) \<or>
            (\<exists>br\<in>set bl. year br = year r \<and> b = Some (total_co2e br)))"
proof -
  from assms obtain r m where r: "r \<in> set recs" "m \<in> set (merge_baseline bl r)" "x = set_change m"
    by auto
  from merge_baseline_member [OF r(2)] r(1,3) show ?thesis by blast
qed

lemma rows_complete:
  assumes "r \<in> set recs"
  shows "\<exists>x\<in>set (map set_change (concat (map (merge_baseline bl) recs))). \<exists>b.
           x = set_change (with_baseline r b)"
proof -
  obtain m where m: "m \<in> set (merge_baseline bl r)"
    using merge_baseline_nonempty [of bl r] by (cases "merge_baseline bl r") auto
  from merge_baseline_member [OF m] obtain b where "m = with_baseline r b" by blast
  with m assms show ?thesis by force
qed

text \<open>
  Claim C3. Every row of a forecast belongs to a scenario and a year of the range, and
  with t = year - start_year its population is population_base * (1 + population_growth)^t,
  its gdp is population * gdp_per_capita_base * (1 + gdp_growth)^t, and its total is the
  sum of the co2e of the emissions computed from the base activity scaled by
  pop_scale = (1 + population_growth)^t for residential, transport and waste and by the
  mean of pop_scale and gdp_scale = (1 + gdp_growth)^t for industry and energy, to which
  then the urban modifiers and the scenario are applied.
\<close>

theorem forecast_cell_growth:
  assumes "forecast_scenarios sort_values base_activity_df factor_df population_base
             population_growth gdp_per_capita_base gdp_growth start_year end_year scenarios
             urban_modifiers = Inr rows"
    and "r \<in> set rows"
  shows "\<exists>scn\<in>set scenarios. \<exists>t scaled.
           scenario r = name scn \<and> start_year \<le> year r \<and> year r \<le> end_year \<and>
           t = nat (year r - start_year) \<and>
           population r = population_base * (1 + population_growth) ^ t \<and>
           gdp r = population r * (gdp_per_capita_base * (1 + gdp_growth) ^ t) \<and>
           scaled = map (\<lambda>a. a\<lparr>activity := activity a *
                        growth_multiplier ((1 + population_growth) ^ t) ((1 + gdp_growth) ^ t)
                          (sector a)\<rparr>) base_activity_df \<and>
           (\<exists>em. compute_sector_emissions sort_values
                    (fst (apply_scenario
                       (case urban_modifiers of None \<Rightarrow> scaled
                        | Some ms \<Rightarrow> apply_urban_form_modifiers scaled ms) factor_df scn))
                    (snd (apply_scenario
                       (case urban_modifiers of None \<Rightarrow> scaled
                        | Some ms \<Rightarrow> apply_urban_form_modifiers scaled ms) factor_df scn))
                    None = Inr em \<and>
                  total_co2e r = sum_list (map co2e em))"
proof -
  from forecast_scenarios_Inr [OF assms(1)] obtain per where
    per: "list_all2 (\<lambda>scn rs. scenario_records sort_values base_activity_df factor_df
            population_base population_growth gdp_per_capita_base gdp_growth start_year end_year
            urban_modifiers scn = Inr rs) scenarios per"
    and rows: "rows = map set_change (concat (map
                  (merge_baseline (filter (\<lambda>r. is_baseline (scenario r)) (concat per)))
                  (concat per)))"
    by blast
  from assms(2) rows_sound [of r "filter (\<lambda>r. is_baseline (scenario r)) (concat per)" "concat per"]
  obtain rec b where rec: "rec \<in> set (concat per)" "r = set_change (with_baseline rec b)"
    unfolding rows by blast
  from records_sound [OF per rec(1)] obtain scn y where
    scn: "scn \<in> set scenarios" "start_year \<le> y" "y \<le> end_year"
      "forecast_cell sort_values base_activity_df factor_df population_base population_growth
         gdp_per_capita_base gdp_growth start_year urban_modifiers scn y = Inr rec"
    by blast
  note c = forecast_cell_Inr [OF scn(4)]
  from c have y: "year rec = y" by simp
  show ?thesis
    apply (rule bexI [OF _ scn(1)])
    apply (rule exI [of _ "nat (y - start_year)"])
    apply (rule exI)
    using c scn(2,3) unfolding rec(2) set_change_fields scale_growth_map y
    apply (intro conjI)
           apply simp_all
    apply (elim conjE)
    apply assumption
    done
qed

text \<open>
  Claim C4. In a forecast with a scenario whose lowercased name is "baseline", every row
  of a baseline scenario has change_vs_baseline_pct exactly 0, and every other row has
  (total_co2e - baseline_total) / baseline_total * 100 in float arithmetic, where
  baseline_total is the total_co2e of a baseline row of the same year.
\<close>

theorem change_vs_baseline:
  assumes "forecast_scenarios sort_values base_activity_df factor_df population_base
             population_growth gdp_per_capita_base gdp_growth start_year end_year scenarios
             urban_modifiers = Inr rows"
    and "\<exists>s\<in>set scenarios. is_baseline (name s)"
    and "r \<in> set rows"
  shows "(is_baseline (scenario r) \<longrightarrow> change_vs_baseline_pct r = Num 0) \<and>
         (\<not> is_baseline (scenario r) \<longrightarrow>
            (\<exists>b\<in>set rows. is_baseline (scenario b) \<and> year b = year r \<and>
               baseline_total r = Some (total_co2e b) \<and>
               change_vs_baseline_pct r =
                 times100 (fdiv (total_co2e r - total_co2e b) (total_co2e b))))"
proof -
  from forecast_scenarios_Inr [OF assms(1)] obtain per where
    per: "list_all2 (\<lambda>scn rs. scenario_records sort_values base_activity_df factor_df
            population_base population_growth gdp_per_capita_base gdp_growth start_year end_year
            urban_modifiers scn = Inr rs) scenarios per"
    and rows: "rows = map set_change (concat (map
                  (merge_baseline (filter (\<lambda>r. is_baseline (scenario r)) (concat per)))
                  (concat per)))"
    by blast
  let ?bl = "filter (\<lambda>r. is_baseline (scenario r)) (concat per)"
  from assms(3) rows_sound [of r ?bl "concat per"]
  obtain rec b where rec: "rec \<in> set (concat per)" "r = set_change (with_baseline rec b)"
    and b: "(b = None \<and> (\<forall>br\<in>set ?bl. year br \<noteq> year rec)) \<or>
            (\<exists>br\<in>set ?bl. year br = year rec \<and> b = Some (total_co2e br))"
    unfolding rows by blast
  have base: "change_vs_baseline_pct r = Num 0" if "is_baseline (scenario r)"
    using that unfolding rec(2) set_change_fields by simp
  have other: "\<exists>x\<in>set rows. is_baseline (scenario x) \<and> year x = year r \<and>
               baseline_total r = Some (total_co2e x) \<and>
               change_vs_baseline_pct r =
                 times100 (fdiv (total_co2e r - total_co2e x) (total_co2e x))"
    if nb: "\<not> is_baseline (scenario r)"
  proof -
    from records_sound [OF per rec(1)] obtain scn y where
      y: "start_year \<le> y" "y \<le> end_year"
        "forecast_cell sort_values base_activity_df factor_df population_base population_growth
           gdp_per_capita_base gdp_growth start_year urban_modifiers scn y = Inr rec"
      by blast
    from forecast_cell_Inr [OF y(3)] have yr: "year rec = y" by simp
    from assms(2) obtain s where s: "s \<in> set scenarios" "is_baseline (name s)" by blast
    from records_complete [OF per s(1) y(1,2)] obtain br0 where
      br0: "br0 \<in> set (concat per)"
        "forecast_cell sort_values base_activity_df factor_df population_base population_growth
           gdp_per_capita_base gdp_growth start_year urban_modifiers s y = Inr br0"
      by blast
    from forecast_cell_Inr [OF br0(2)] have "year br0 = y" "scenario br0 = name s" by simp_all
    with br0(1) s(2) yr have "br0 \<in> set ?bl" "year br0 = year rec" by simp_all
    with b obtain br where br: "br \<in> set ?bl" "year br = year rec" "b = Some (total_co2e br)"
      by blast
    from br(1) have brr: "br \<in> set (concat per)" "is_baseline (scenario br)" by simp_all
    from rows_complete [OF brr(1), of ?bl] obtain x b' where
      x: "x \<in> set rows" "x = set_change (with_baseline br b')"
      unfolding rows by blast
    have "is_baseline (scenario x)" "year x = year r" "total_co2e x = total_co2e br"
      using brr(2) br(2) unfolding x(2) rec(2) set_change_fields by simp_all
    moreover have "baseline_total r = Some (total_co2e br)"
      unfolding rec(2) set_change_fields by (rule br(3))
    moreover have "change_vs_baseline_pct r =
        times100 (fdiv (total_co2e r - total_co2e br) (total_co2e br))"
      using nb unfolding rec(2) set_change_fields br(3) by (simp add: pct_change_def)
    ultimately show ?thesis using x(1) by auto
  qed
  from base other show ?thesis by blast
qed

section \<open>Year range and number of rows\<close>

lemma scenario_records_single_year:
  assumes "set (map sector base) \<subseteq> set (map f_sector fac)"
  shows "\<exists>r. scenario_records sv base fac pb pg gb gg start_year start_year um scn = Inr [r] \<and>
             year r = start_year \<and> scenario r = name scn"
proof -
  from forecast_cell_succeeds [OF assms] obtain r where
    r: "forecast_cell sv base fac pb pg gb gg start_year um scn start_year = Inr r" by blast
  from forecast_cell_Inr [OF r] have "year r = start_year" "scenario r = name scn" by simp_all
  moreover have "scenario_records sv base fac pb pg gb gg start_year start_year um scn = Inr [r]"
    using r by (simp add: scenario_records_def year_range_def)
  ultimately show ?thesis by blast
qed

lemma collect_single_year:
  assumes "set (map sector base) \<subseteq> set (map f_sector fac)"
  shows "\<exists>recs. collect (scenario_records sv base fac pb pg gb gg start_year start_year um) scenarios
             = Inr (map (\<lambda>r. [r]) recs) \<and>
           list_all2 (\<lambda>scn r. year r = start_year \<and> scenario r = name scn) scenarios recs"
proof (induction scenarios)
  case Nil
  show ?case by simp
next
  case (Cons scn scenarios)
  from Cons obtain recs where
    recs: "collect (scenario_records sv base fac pb pg gb gg start_year start_year um) scenarios
             = Inr (map (\<lambda>r. [r]) recs)"
      "list_all2 (\<lambda>scn r. year r = start_year \<and> scenario r = name scn) scenarios recs"
    by blast
  from scenario_records_single_year [OF assms] obtain r where
    r: "scenario_records sv base fac pb pg gb gg start_year start_year um scn = Inr [r]"
       "year r = start_year" "scenario r = name scn"
    by blast
  have "collect (scenario_records sv base fac pb pg gb gg start_year start_year um) (scn # scenarios)
          = Inr (map (\<lambda>r. [r]) (r # recs))"
    using r(1) recs(1) by simp
  moreover have "list_all2 (\<lambda>scn r. year r = start_year \<and> scenario r = name scn)
      (scn # scenarios) (r # recs)"
    using r(2,3) recs(2) by simp
  ultimately show ?case by blast
qed

lemma baseline_count:
  "list_all2 (\<lambda>scn r. year r = start_year \<and> scenario r = name scn) scenarios recs \<Longrightarrow>
   length (filter (\<lambda>r. is_baseline (scenario r)) recs) =
   length (filter (\<lambda>s. is_baseline (name s)) scenarios)"
  by (induction rule: list_all2_induct) auto

lemma merge_baseline_same_year:
  assumes "\<forall>b\<in>set bl. year b = year r"
  shows "length (merge_baseline bl r) = max 1 (length bl)"
proof -
  from assms have "filter (\<lambda>b. year b = year r) bl = bl" by (simp add: filter_id_conv)
  then show ?thesis by (cases bl) (simp_all add: merge_baseline_def)
qed

lemma length_concat_const:
  "\<forall>x\<in>set xs. length (f x) = n \<Longrightarrow> length (concat (map f xs)) = length xs * n"
  by (induction xs) auto

text \<open>
  Claim C8, as amended. With at least one scenario, \<open>forecast_scenarios\<close> raises the
  error of \<open>year_range\<close> whenever end_year < start_year. With at least one scenario,
  start_year = end_year and a factor row for every sector of the base activity, it
  returns len(scenarios) * max(1, b) rows, where b is the number of scenarios whose
  lowercased name is "baseline": one row per scenario when b is at most 1.
\<close>

theorem forecast_year_range_and_rows:
  "(scenarios \<noteq> [] \<and> end_year < start_year \<longrightarrow>
      forecast_scenarios sort_values base_activity_df factor_df population_base population_growth
        gdp_per_capita_base gdp_growth start_year end_year scenarios urban_modifiers
      = Inl YearRangeError) \<and>
   (scenarios \<noteq> [] \<and> set (map sector base_activity_df) \<subseteq> set (map f_sector factor_df) \<longrightarrow>
      (\<exists>rows. forecast_scenarios sort_values base_activity_df factor_df population_base
                 population_growth gdp_per_capita_base gdp_growth start_year start_year scenarios
                 urban_modifiers = Inr rows \<and>
         length rows = length scenarios *
            max 1 (length (filter (\<lambda>s. is_baseline (name s)) scenarios)) \<and>
         (length (filter (\<lambda>s. is_baseline (name s)) scenarios) \<le> 1 \<longrightarrow>
            length rows = length scenarios)))"
proof (intro conjI impI)
  assume "scenarios \<noteq> [] \<and> end_year < start_year"
  then obtain scn rest where "scenarios = scn # rest" "end_year < start_year"
    by (cases scenarios) auto
  then show "forecast_scenarios sort_values base_activity_df factor_df population_base
        population_growth gdp_per_capita_base gdp_growth start_year end_year scenarios
        urban_modifiers = Inl YearRangeError"
    by (simp add: forecast_scenarios_def scenario_records_def year_range_def)
next
  assume a: "scenarios \<noteq> [] \<and> set (map sector base_activity_df) \<subseteq> set (map f_sector factor_df)"
  let ?n = "length (filter (\<lambda>s. is_baseline (name s)) scenarios)"
  from a have sub: "set (map sector base_activity_df) \<subseteq> set (map f_sector factor_df)" by simp
  from collect_single_year [OF sub] obtain recs where
    c: "collect (scenario_records sort_values base_activity_df factor_df population_base
          population_growth gdp_per_capita_base gdp_growth start_year start_year urban_modifiers)
          scenarios = Inr (map (\<lambda>r. [r]) recs)"
    and l: "list_all2 (\<lambda>scn r. year r = start_year \<and> scenario r = name scn) scenarios recs"
    by blast
  have cc: "concat (map (\<lambda>r. [r]) recs) = recs" by (induction recs) simp_all
  from l have len: "length recs = length scenarios" by (simp add: list_all2_lengthD)
  with a have ne: "recs \<noteq> []" by auto
  let ?bl = "filter (\<lambda>r. is_baseline (scenario r)) recs"
  let ?rows = "map set_change (concat (map (merge_baseline ?bl) recs))"
  have res: "forecast_scenarios sort_values base_activity_df factor_df population_base
                 population_growth gdp_per_capita_base gdp_growth start_year start_year scenarios
                 urban_modifiers = Inr ?rows"
    using ne by (simp add: forecast_scenarios_def c cc Let_def)
  from l have yr: "\<forall>r\<in>set recs. year r = start_year"
    using list_all2_right_member [OF l] by blast
  then have "\<forall>r\<in>set recs. length (merge_baseline ?bl r) = max 1 (length ?bl)"
    by (intro ballI merge_baseline_same_year) simp
  then have "length (concat (map (merge_baseline ?bl) recs)) = length recs * max 1 (length ?bl)"
    by (rule length_concat_const)
  then have n: "length ?rows = length scenarios * max 1 ?n"
    using len baseline_count [OF l] by simp
  then have "?n \<le> 1 \<longrightarrow> length ?rows = length scenarios" by (simp add: max_def)
  with res n show "\<exists>rows. forecast_scenarios sort_values base_activity_df factor_df population_base
                 population_growth gdp_per_capita_base gdp_growth start_year start_year scenarios
                 urban_modifiers = Inr rows \<and>
         length rows = length scenarios * max 1 ?n \<and> (?n \<le> 1 \<longrightarrow> length rows = length scenarios)"
    by blast
qed

section \<open>Examples\<close>

lemmas forecast_eval = forecast_scenarios_def scenario_records_def year_range_def forecast_cell_def
  scale_growth_def apply_scenario_def normalized_def clamp_def adjustments_def scale_sector_def
  scale_factors_def compute_sector_emissions_def merge_left_def merge_row_def joined_def
  isna_any_def emission_def DEFAULT_GWP_def nargsort_desc_def aggregate_emissions_def
  safe_divide_def is_baseline_def str_lower_def lower_char_def merge_baseline_def
  with_baseline_def set_change_def pct_change_def fdiv_def times100_def Let_def
  demo_activity_def demo_factors_def demo_scenario_def demo_row_def upto.simps

lemma demo_forecast:
  "forecast_scenarios nargsort_desc demo_activity demo_factors 1000 1 10 0 2025 2026
     [demo_scenario ''Baseline'' 0, demo_scenario ''Mitigation'' 0.5] None
   = Inr [demo_row 2025 ''Baseline'' 200 (1 / 5) (1 / 50) 1000 10000 200 (Num 0),
          demo_row 2026 ''Baseline'' 350 (7 / 40) (7 / 400) 2000 20000 350 (Num 0),
          demo_row 2025 ''Mitigation'' 100 (1 / 10) (1 / 100) 1000 10000 200 (Num (- 50)),
          demo_row 2026 ''Mitigation'' 175 (7 / 80) (7 / 800) 2000 20000 350 (Num (- 50))]"
  by (simp add: forecast_eval)

theorem forecast_cell_growth_witness:
  "\<exists>scn\<in>set [demo_scenario ''Baseline'' 0, demo_scenario ''Mitigation'' 0.5]. \<exists>t.
      scenario (demo_row 2026 ''Mitigation'' 175 (7 / 80) (7 / 800) 2000 20000 350 (Num (- 50)))
        = name scn \<and>
      t = nat (year (demo_row 2026 ''Mitigation'' 175 (7 / 80) (7 / 800) 2000 20000 350 (Num (- 50)))
               - 2025) \<and>
      population (demo_row 2026 ''Mitigation'' 175 (7 / 80) (7 / 800) 2000 20000 350 (Num (- 50)))
        = 1000 * (1 + 1) ^ t \<and>
      gdp (demo_row 2026 ''Mitigation'' 175 (7 / 80) (7 / 800) 2000 20000 350 (Num (- 50)))
        = population (demo_row 2026 ''Mitigation'' 175 (7 / 80) (7 / 800) 2000 20000 350 (Num (- 50)))
          * (10 * (1 + 0) ^ t)"
proof -
  let ?r = "demo_row 2026 ''Mitigation'' 175 (7 / 80) (7 / 800) 2000 20000 350 (Num (- 50))"
  have m: "?r \<in> set [demo_row 2025 ''Baseline'' 200 (1 / 5) (1 / 50) 1000 10000 200 (Num 0),
          demo_row 2026 ''Baseline'' 350 (7 / 40) (7 / 400) 2000 20000 350 (Num 0),
          demo_row 2025 ''Mitigation'' 100 (1 / 10) (1 / 100) 1000 10000 200 (Num (- 50)),
          ?r]" by simp
  from forecast_cell_growth [OF demo_forecast m] show ?thesis by blast
qed

theorem change_vs_baseline_witness:
  "change_vs_baseline_pct (demo_row 2026 ''Baseline'' 350 (7 / 40) (7 / 400) 2000 20000 350 (Num 0))
     = Num 0 \<and>
   (\<exists>b\<in>set [demo_row 2025 ''Baseline'' 200 (1 / 5) (1 / 50) 1000 10000 200 (Num 0),
          demo_row 2026 ''Baseline'' 350 (7 / 40) (7 / 400) 2000 20000 350 (Num 0),
          demo_row 2025 ''Mitigation'' 100 (1 / 10) (1 / 100) 1000 10000 200 (Num (- 50)),
          demo_row 2026 ''Mitigation'' 175 (7 / 80) (7 / 800) 2000 20000 350 (Num (- 50))].
      is_baseline (scenario b) \<and>
      year b = year (demo_row 2026 ''Mitigation'' 175 (7 / 80) (7 / 800) 2000 20000 350 (Num (- 50))) \<and>
      baseline_total (demo_row 2026 ''Mitigation'' 175 (7 / 80) (7 / 800) 2000 20000 350 (Num (- 50)))
        = Some (total_co2e b) \<and>
      change_vs_baseline_pct
        (demo_row 2026 ''Mitigation'' 175 (7 / 80) (7 / 800) 2000 20000 350 (Num (- 50)))
        = times100 (fdiv (total_co2e
            (demo_row 2026 ''Mitigation'' 175 (7 / 80) (7 / 800) 2000 20000 350 (Num (- 50)))
              - total_co2e b) (total_co2e b)))"
proof -
  let ?b = "demo_row 2026 ''Baseline'' 350 (7 / 40) (7 / 400) 2000 20000 350 (Num 0)"
  let ?r = "demo_row 2026 ''Mitigation'' 175 (7 / 80) (7 / 800) 2000 20000 350 (Num (- 50))"
  let ?rows = "[demo_row 2025 ''Baseline'' 200 (1 / 5) (1 / 50) 1000 10000 200 (Num 0), ?b,
          demo_row 2025 ''Mitigation'' 100 (1 / 10) (1 / 100) 1000 10000 200 (Num (- 50)), ?r]"
  have e: "\<exists>s\<in>set [demo_scenario ''Baseline'' 0, demo_scenario ''Mitigation'' 0.5].
             is_baseline (name s)"
    by (simp add: demo_scenario_def is_baseline_def str_lower_def lower_char_def)
  have mb: "?b \<in> set ?rows" by simp
  have mr: "?r \<in> set ?rows" by simp
  have ib: "is_baseline (scenario ?b)"
    by (simp add: demo_row_def is_baseline_def str_lower_def lower_char_def)
  have nr: "\<not> is_baseline (scenario ?r)"
    by (simp add: demo_row_def is_baseline_def str_lower_def lower_char_def)
  from change_vs_baseline [OF demo_forecast e mb] ib
  have 1: "change_vs_baseline_pct ?b = Num 0" by blast
  from change_vs_baseline [OF demo_forecast e mr] nr
  have 2: "\<exists>b\<in>set ?rows. is_baseline (scenario b) \<and> year b = year ?r \<and>
      baseline_total ?r = Some (total_co2e b) \<and>
      change_vs_baseline_pct ?r = times100 (fdiv (total_co2e ?r - total_co2e b) (total_co2e b))"
    by blast
  from 1 2 show ?thesis by (rule conjI)
qed

theorem forecast_year_range_and_rows_witness:
  "forecast_scenarios nargsort_desc demo_activity demo_factors 1000 1 10 0 2025 2024
     [demo_scenario ''Baseline'' 0, demo_scenario ''Mitigation'' 0.5] None = Inl YearRangeError \<and>
   (\<exists>rows. forecast_scenarios nargsort_desc demo_activity demo_factors 1000 1 10 0 2025 2025
       [demo_scenario ''Baseline'' 0, demo_scenario ''Mitigation'' 0.5] None = Inr rows \<and>
     length rows = 2)"
proof -
  let ?s = "[demo_scenario ''Baseline'' 0, demo_scenario ''Mitigation'' 0.5]"
  have n: "length (filter (\<lambda>s. is_baseline (name s)) ?s) = 1"
    by (simp add: demo_scenario_def is_baseline_def str_lower_def lower_char_def)
  have a: "?s \<noteq> [] \<and> (2024::int) < 2025" by simp
  have b: "?s \<noteq> [] \<and> set (map sector demo_activity) \<subseteq> set (map f_sector demo_factors)"
    by (simp add: demo_activity_def demo_factors_def)
  note t = forecast_year_range_and_rows [of ?s 2024 2025 nargsort_desc demo_activity demo_factors
      1000 1 10 0 None]
  from t a have 1: "forecast_scenarios nargsort_desc demo_activity demo_factors 1000 1 10 0 2025 2024
     ?s None = Inl YearRangeError" by blast
  from t b n have 2: "\<exists>rows. forecast_scenarios nargsort_desc demo_activity demo_factors 1000 1 10 0 2025 2025
       ?s None = Inr rows \<and> length rows = 2"
    by auto
  from 1 2 show ?thesis by (rule conjI)
qed

text \<open>
  Claim C8 as stated fails twice: with no scenario and end_year < start_year the result
  is the \<open>KeyError\<close> of the baseline join, and with two scenarios named "Baseline" and
  "baseline" and start_year = end_year the join on the year gives four rows.
\<close>

theorem forecast_rows_counterexample:
  "forecast_scenarios nargsort_desc demo_activity demo_factors 1000 1 10 0 2025 2024 [] None
     = Inl (KeyError ''scenario'') \<and>
   map_sum id length
     (forecast_scenarios nargsort_desc demo_activity demo_factors 1000 1 10 0 2025 2025
        [demo_scenario ''Baseline'' 0, demo_scenario ''baseline'' 0.5] None) = Inr 4 \<and>
   length [demo_scenario ''Baseline'' 0, demo_scenario ''baseline'' 0.5] = 2"
  by (simp add: forecast_eval)

end
